theory Spec2Isabelle
  imports Main
begin

section \<open>Data model (app.py, lines 38-93)\<close>

text \<open>
  A Python \<open>str\<close> is a sequence of Unicode code points, so a string is a list of
  natural numbers here; \<open>py\<close> embeds an ASCII literal. A \<open>datetime\<close> is a clock
  reading that the handlers only store, so it is an integer handed in by the caller
  (the value \<open>datetime.utcnow\<close> returns at that moment).
\<close>

type_synonym py_str = "nat list"
type_synonym datetime = int

definition py :: "string \<Rightarrow> py_str" where
  "py s = map of_char s"

text \<open>
  One record per mapped class. A field keeps the source's name, prefixed by its class
  where two classes share it. A nullable column is an \<open>option\<close>.
\<close>

record Company =
  Company_id :: int
  Company_name :: py_str
  Company_street :: "py_str option"
  Company_house_number :: "py_str option"
  Company_postal_code :: "py_str option"
  Company_city :: "py_str option"
  Company_created_at :: datetime

record User =
  User_id :: int
  User_email :: py_str
  User_password_hash :: py_str
  User_is_superadmin :: bool
  User_company_id :: "int option"

record Record =
  Record_id :: int
  Record_company_id :: int
  Record_name :: py_str
  Record_description :: "py_str option"
  Record_group :: "py_str option"
  Record_created_at :: datetime

text \<open>
  \<open>RecordRelation\<close>: an undirected relation; the source's comment says that
  \<open>(min_id, max_id)\<close> is always stored in \<open>(a_id, b_id)\<close>.
\<close>

record RecordRelation =
  RecordRelation_id :: int
  a_id :: int
  b_id :: int
  RecordRelation_company_id :: int
  RecordRelation_created_at :: datetime

text \<open>
  The database: one list of rows per table, named by \<open>__tablename__\<close>. A table scan
  without \<open>ORDER BY\<close> yields the rows in the order of the list, which is the order of
  insertion; with the key allocation below that is ascending primary key, the order in
  which SQLite scans a rowid table.
\<close>

record db =
  tbl_company :: "Company list"
  tbl_user :: "User list"
  tbl_record :: "Record list"
  tbl_record_relation :: "RecordRelation list"

definition empty_db :: db where
  "empty_db = \<lparr>tbl_company = [], tbl_user = [], tbl_record = [], tbl_record_relation = []\<rparr>"

text \<open>
  An \<open>Integer\<close> primary key of SQLite is the rowid: a row inserted without one gets 1
  in an empty table and the largest key plus one otherwise.
\<close>

fun next_id :: "int list \<Rightarrow> int" where
  "next_id [] = 1"
| "next_id (x # xs) = fold max xs x + 1"

section \<open>Session, responses, helpers (app.py, lines 112-139)\<close>

text \<open>
  The Flask session holds the three keys that \<open>login\<close> sets; a key that is absent
  reads as \<open>None\<close> under \<open>session.get\<close>.
\<close>

record session =
  session_user_id :: "int option"
  session_is_superadmin :: "bool option"
  session_company_id :: "int option"

text \<open>Python truth of an optional integer: \<open>None\<close> and \<open>0\<close> are false.\<close>

definition truthy :: "int option \<Rightarrow> bool" where
  "truthy v = (case v of None \<Rightarrow> False | Some n \<Rightarrow> n \<noteq> 0)"

text \<open>
  What a handler answers. Every message of \<open>flash\<close> is one constructor:
  \<^item> \<open>NotAuthorized\<close>: "Nicht berechtigt."
  \<^item> \<open>CompanyNameRequired\<close>: "Firmenname ist erforderlich."
  \<^item> \<open>CompanyCreated\<close>: "Firma angelegt."
  \<^item> \<open>EmailPasswordRequired\<close>: "E-Mail und Passwort sind erforderlich."
  \<^item> \<open>ChooseCompany\<close>: "Bitte eine Firma waehlen."
  \<^item> \<open>EmailTaken\<close>: "E-Mail bereits vergeben."
  \<^item> \<open>UserCreated\<close>: "User angelegt."
  \<^item> \<open>NameRequired\<close>: "Name ist erforderlich."
  \<^item> \<open>NotCompanyUser\<close>: "Bitte als Firmen-User agieren."
  \<^item> \<open>RecordCreated\<close>: "Datensatz angelegt."
  \<^item> \<open>SelfRelation\<close>: "Relation zu sich selbst ist nicht erlaubt."
  \<^item> \<open>InvalidIds\<close>: "Ungueltige Datensatz-IDs."
  \<^item> \<open>RelationCreated\<close>: "Relation angelegt."
  \<^item> \<open>RelationExists\<close>: "Relation existiert bereits."
  \<^item> \<open>RelationDeleted\<close>: "Relation geloescht."
  \<^item> \<open>RelationNotFound\<close>: "Relation nicht gefunden."
\<close>

datatype flash_msg =
    NotAuthorized | CompanyNameRequired | CompanyCreated
  | EmailPasswordRequired | ChooseCompany | EmailTaken | UserCreated
  | NameRequired | NotCompanyUser | RecordCreated
  | SelfRelation | InvalidIds | RelationCreated | RelationExists
  | RelationDeleted | RelationNotFound

datatype endpoint = Login | Index | Admin | Records

datatype exn = AttributeError | IntegrityError

record Node =
  node_id :: int
  node_name :: py_str
  node_description :: py_str
  node_group :: py_str

record Edge =
  edge_a :: int
  edge_b :: int

record Snapshot =
  nodes :: "Node list"
  edges :: "Edge list"
  snapshot_company_id :: "int option"
  ts :: int

datatype response =
    Redirect endpoint "flash_msg option"
  | JsonOk Snapshot
  | JsonError400
  | Raised exn

definition login_required :: "session \<Rightarrow> (db \<Rightarrow> response \<times> db) \<Rightarrow> db \<Rightarrow> response \<times> db" where
  "login_required s fn d =
     (if \<not> truthy (session_user_id s) then (Redirect Login None, d) else fn d)"

definition superadmin_required :: "session \<Rightarrow> (db \<Rightarrow> response \<times> db) \<Rightarrow> db \<Rightarrow> response \<times> db" where
  "superadmin_required s fn d =
     (if \<not> truthy (session_user_id s) \<or> session_is_superadmin s \<noteq> Some True
      then (Redirect Index (Some NotAuthorized), d) else fn d)"

definition current_user :: "db \<Rightarrow> session \<Rightarrow> User option" where
  "current_user d s =
     (if \<not> truthy (session_user_id s) then None
      else find (\<lambda>u. Some (User_id u) = session_user_id s) (tbl_user d))"

definition normalized_pair :: "int \<Rightarrow> int \<Rightarrow> int \<times> int" where
  "normalized_pair id1 id2 = (if id1 < id2 then (id1, id2) else (id2, id1))"

text \<open>
  \<open>str.strip()\<close> removes the code points for which \<open>str.isspace\<close> holds from both
  ends; \<open>or_empty\<close> is \<open>request.form.get(k) or ""\<close>.
\<close>

definition isspace :: "nat \<Rightarrow> bool" where
  "isspace c =
     ((9 \<le> c \<and> c \<le> 13) \<or> (28 \<le> c \<and> c \<le> 32) \<or> c = 133 \<or> c = 160 \<or> c = 5760
      \<or> (8192 \<le> c \<and> c \<le> 8202) \<or> c = 8232 \<or> c = 8233 \<or> c = 8239 \<or> c = 8287
      \<or> c = 12288)"

definition strip :: "py_str \<Rightarrow> py_str" where
  "strip s = rev (dropWhile isspace (rev (dropWhile isspace s)))"

definition or_empty :: "py_str option \<Rightarrow> py_str" where
  "or_empty v = (case v of None \<Rightarrow> [] | Some s \<Rightarrow> s)"

section \<open>Start-up and seeding (app.py, lines 98-110; seed_test_data.py)\<close>

text \<open>
  \<open>init_db\<close> adds the initial super-admin unless a user has its e-mail address. The
  password hash is salted at random, so it is a parameter: the string that
  \<open>generate_password_hash\<close> returned.
\<close>

definition INITIAL_ADMIN_EMAIL :: py_str where
  "INITIAL_ADMIN_EMAIL = py ''admin@vip.local''"

definition init_db :: "py_str \<Rightarrow> db \<Rightarrow> db" where
  "init_db pw_hash d =
     (case find (\<lambda>u. User_email u = INITIAL_ADMIN_EMAIL) (tbl_user d) of
        Some admin \<Rightarrow> d
      | None \<Rightarrow>
          d\<lparr>tbl_user := tbl_user d @
             [\<lparr>User_id = next_id (map User_id (tbl_user d)),
               User_email = INITIAL_ADMIN_EMAIL,
               User_password_hash = pw_hash,
               User_is_superadmin = True,
               User_company_id = None\<rparr>]\<rparr>)"

text \<open>
  \<open>seed\<close> empties the record and company tables with bulk deletes (which cascade
  nothing; SQLite does not enforce the foreign keys unless asked to), then adds one
  company and two records of it. Each inserted row reads the clock for \<open>created_at\<close>.
\<close>

definition seed :: "datetime \<Rightarrow> datetime \<Rightarrow> datetime \<Rightarrow> db \<Rightarrow> db" where
  "seed now1 now2 now3 d =
     (let company = \<lparr>Company_id = next_id [], Company_name = py ''Test Company'',
                     Company_street = None, Company_house_number = None,
                     Company_postal_code = None, Company_city = None,
                     Company_created_at = now1\<rparr>
      in d\<lparr>tbl_company := [company],
           tbl_record :=
             [\<lparr>Record_id = 1, Record_company_id = Company_id company,
               Record_name = py ''First Record'', Record_description = Some [],
               Record_group = Some [], Record_created_at = now2\<rparr>,
              \<lparr>Record_id = 2, Record_company_id = Company_id company,
               Record_name = py ''Second Record'', Record_description = Some [],
               Record_group = Some [], Record_created_at = now3\<rparr>]\<rparr>)"

section \<open>Super-admin routes (app.py, lines 190-244)\<close>

definition create_company ::
  "session \<Rightarrow> datetime \<Rightarrow> py_str option \<Rightarrow> py_str option \<Rightarrow> py_str option \<Rightarrow>
   py_str option \<Rightarrow> py_str option \<Rightarrow> db \<Rightarrow> response \<times> db" where
  "create_company s now f_name f_street f_house_number f_postal_code f_city =
     superadmin_required s (\<lambda>d.
       let name = strip (or_empty f_name);
           street = strip (or_empty f_street);
           house_number = strip (or_empty f_house_number);
           postal_code = strip (or_empty f_postal_code);
           city = strip (or_empty f_city)
       in if name = [] then (Redirect Admin (Some CompanyNameRequired), d)
          else
            (Redirect Admin (Some CompanyCreated),
             d\<lparr>tbl_company := tbl_company d @
                [\<lparr>Company_id = next_id (map Company_id (tbl_company d)),
                  Company_name = name, Company_street = Some street,
                  Company_house_number = Some house_number,
                  Company_postal_code = Some postal_code,
                  Company_city = Some city, Company_created_at = now\<rparr>]\<rparr>))"

text \<open>
  \<open>create_user\<close>: \<open>email\<close> is the form's e-mail address after \<open>strip().lower()\<close>,
  \<open>pw_hash\<close> the hash of the password, and \<open>company_id\<close> the value of
  \<open>int(company_id)\<close>, \<open>None\<close> when that conversion raises \<open>TypeError\<close> or
  \<open>ValueError\<close>.
\<close>

definition create_user ::
  "session \<Rightarrow> py_str \<Rightarrow> py_str \<Rightarrow> py_str \<Rightarrow> int option \<Rightarrow> bool \<Rightarrow> db \<Rightarrow> response \<times> db" where
  "create_user s email password pw_hash company_id is_superadmin =
     superadmin_required s (\<lambda>d.
       if email = [] \<or> password = [] then (Redirect Admin (Some EmailPasswordRequired), d)
       else if \<not> is_superadmin \<and> company_id = None then (Redirect Admin (Some ChooseCompany), d)
       else if find (\<lambda>u. User_email u = email) (tbl_user d) \<noteq> None
         then (Redirect Admin (Some EmailTaken), d)
       else
         (Redirect Admin (Some UserCreated),
          d\<lparr>tbl_user := tbl_user d @
             [\<lparr>User_id = next_id (map User_id (tbl_user d)),
               User_email = email, User_password_hash = pw_hash,
               User_is_superadmin = is_superadmin,
               User_company_id = (if is_superadmin then None else company_id)\<rparr>]\<rparr>))"

section \<open>Company-user routes: records and relations (app.py, lines 267-348)\<close>

text \<open>
  In each handler \<open>user.is_superadmin\<close> on a \<open>user\<close> that is \<open>None\<close> (the session
  names a user the table does not have) raises \<open>AttributeError\<close>; \<open>finally\<close> closes
  the session and nothing is committed.
\<close>

definition create_record ::
  "session \<Rightarrow> datetime \<Rightarrow> py_str option \<Rightarrow> py_str option \<Rightarrow> py_str option \<Rightarrow> db \<Rightarrow> response \<times> db" where
  "create_record s now f_name f_description f_group =
     login_required s (\<lambda>d.
       let name = strip (or_empty f_name);
           description = strip (or_empty f_description);
           group = strip (or_empty f_group)
       in if name = [] then (Redirect Records (Some NameRequired), d)
          else
            (case current_user d s of
               None \<Rightarrow> (Raised AttributeError, d)
             | Some user \<Rightarrow>
                 if User_is_superadmin user \<or> \<not> truthy (User_company_id user)
                 then (Redirect Records (Some NotCompanyUser), d)
                 else
                   (case User_company_id user of
                      None \<Rightarrow> (Redirect Records (Some NotCompanyUser), d)
                    | Some c \<Rightarrow>
                        (Redirect Records (Some RecordCreated),
                         d\<lparr>tbl_record := tbl_record d @
                            [\<lparr>Record_id = next_id (map Record_id (tbl_record d)),
                              Record_company_id = c, Record_name = name,
                              Record_description = Some description,
                              Record_group = Some group,
                              Record_created_at = now\<rparr>]\<rparr>))))"

text \<open>
  \<open>nodesExist\<close> is the count query of \<open>create_relation\<close>: the rows of \<open>record\<close>
  of the company whose id is one of the two.
\<close>

definition nodesExist :: "db \<Rightarrow> int \<Rightarrow> int \<Rightarrow> int \<Rightarrow> nat" where
  "nodesExist d c id1 id2 =
     length (filter (\<lambda>r. Record_company_id r = c \<and> Record_id r \<in> set [id1, id2]) (tbl_record d))"

text \<open>
  \<open>create_relation\<close>: the arguments are the form fields after \<open>int(...)\<close>. The table
  has the constraint \<open>UniqueConstraint("a_id", "b_id")\<close>, over all companies: the
  commit of a row whose pair the table already has raises \<open>IntegrityError\<close> and stores
  nothing.
\<close>

definition create_relation :: "session \<Rightarrow> datetime \<Rightarrow> int \<Rightarrow> int \<Rightarrow> db \<Rightarrow> response \<times> db" where
  "create_relation s now id1 id2 =
     login_required s (\<lambda>d.
       if id1 = id2 then (Redirect Records (Some SelfRelation), d)
       else
         (case current_user d s of
            None \<Rightarrow> (Raised AttributeError, d)
          | Some user \<Rightarrow>
              if User_is_superadmin user \<or> \<not> truthy (User_company_id user)
              then (Redirect Records (Some NotCompanyUser), d)
              else
                (case User_company_id user of
                   None \<Rightarrow> (Redirect Records (Some NotCompanyUser), d)
                 | Some c \<Rightarrow>
                     if nodesExist d c id1 id2 \<noteq> 2
                     then (Redirect Records (Some InvalidIds), d)
                     else
                       (case normalized_pair id1 id2 of (a, b) \<Rightarrow>
                          (case find (\<lambda>r. a_id r = a \<and> b_id r = b \<and> RecordRelation_company_id r = c)
                                  (tbl_record_relation d) of
                             Some rel \<Rightarrow> (Redirect Records (Some RelationExists), d)
                           | None \<Rightarrow>
                               if \<exists>r \<in> set (tbl_record_relation d). a_id r = a \<and> b_id r = b
                               then (Raised IntegrityError, d)
                               else
                                 (Redirect Records (Some RelationCreated),
                                  d\<lparr>tbl_record_relation := tbl_record_relation d @
                                     [\<lparr>RecordRelation_id =
                                         next_id (map RecordRelation_id (tbl_record_relation d)),
                                       a_id = a, b_id = b,
                                       RecordRelation_company_id = c,
                                       RecordRelation_created_at = now\<rparr>]\<rparr>))))))"

definition delete_relation :: "session \<Rightarrow> int \<Rightarrow> db \<Rightarrow> response \<times> db" where
  "delete_relation s rel_id =
     login_required s (\<lambda>d.
       case current_user d s of
         None \<Rightarrow> (Raised AttributeError, d)
       | Some user \<Rightarrow>
           if User_is_superadmin user \<or> \<not> truthy (User_company_id user)
           then (Redirect Records (Some NotCompanyUser), d)
           else
             (case find (\<lambda>r. RecordRelation_id r = rel_id
                              \<and> Some (RecordRelation_company_id r) = User_company_id user)
                     (tbl_record_relation d) of
                Some rel \<Rightarrow>
                  (Redirect Records (Some RelationDeleted),
                   d\<lparr>tbl_record_relation :=
                        filter (\<lambda>r. RecordRelation_id r \<noteq> RecordRelation_id rel)
                          (tbl_record_relation d)\<rparr>)
              | None \<Rightarrow> (Redirect Records (Some RelationNotFound), d)))"

section \<open>Graph endpoint (app.py, lines 376-403)\<close>

text \<open>
  \<open>api_graph\<close>: \<open>requested\<close> is \<open>request.args.get("company_id", type=int)\<close> and
  \<open>now_ts\<close> the integer \<open>int(datetime.utcnow().timestamp())\<close>. A comparison of the
  column with \<open>None\<close> selects no row, since \<open>company_id\<close> is not nullable.
\<close>

definition node_of :: "Record \<Rightarrow> Node" where
  "node_of r = \<lparr>node_id = Record_id r, node_name = Record_name r,
               node_description = or_empty (Record_description r),
               node_group = or_empty (Record_group r)\<rparr>"

definition edge_of :: "RecordRelation \<Rightarrow> Edge" where
  "edge_of rel = \<lparr>edge_a = a_id rel, edge_b = b_id rel\<rparr>"

definition api_graph :: "session \<Rightarrow> int option \<Rightarrow> int \<Rightarrow> db \<Rightarrow> response \<times> db" where
  "api_graph s requested now_ts =
     login_required s (\<lambda>d.
       case current_user d s of
         None \<Rightarrow> (Raised AttributeError, d)
       | Some user \<Rightarrow>
           if User_is_superadmin user \<and> \<not> truthy requested then (JsonError400, d)
           else
             (let company_id = (if \<not> User_is_superadmin user then User_company_id user
                                else requested);
                  recs = filter (\<lambda>r. Some (Record_company_id r) = company_id) (tbl_record d);
                  rels = filter (\<lambda>r. Some (RecordRelation_company_id r) = company_id)
                           (tbl_record_relation d)
              in (JsonOk \<lparr>nodes = map node_of recs, edges = map edge_of rels,
                          snapshot_company_id = company_id, ts = now_ts\<rparr>, d)))"

section \<open>Callers, ownership and the canonical form\<close>

text \<open>
  The caller of a company-user route acts for company \<open>c\<close> when the session names a
  user who is no super-admin and whose \<open>company_id\<close> is \<open>c\<close>, a value Python takes
  for true.
\<close>

definition tenant_caller :: "db \<Rightarrow> session \<Rightarrow> int \<Rightarrow> bool" where
  "tenant_caller d s c =
     (case current_user d s of
        None \<Rightarrow> False
      | Some u \<Rightarrow> \<not> User_is_superadmin u \<and> User_company_id u = Some c \<and> c \<noteq> 0)"

definition owned :: "db \<Rightarrow> int \<Rightarrow> int \<Rightarrow> bool" where
  "owned d c x = (\<exists>r \<in> set (tbl_record d). Record_id r = x \<and> Record_company_id r = c)"

definition pair_of :: "RecordRelation \<Rightarrow> int \<times> int" where
  "pair_of r = (a_id r, b_id r)"

text \<open>The row that \<open>create_relation\<close> adds for company \<open>c\<close>.\<close>

definition new_relation :: "db \<Rightarrow> int \<Rightarrow> datetime \<Rightarrow> int \<Rightarrow> int \<Rightarrow> RecordRelation" where
  "new_relation d c now id1 id2 =
     \<lparr>RecordRelation_id = next_id (map RecordRelation_id (tbl_record_relation d)),
      a_id = fst (normalized_pair id1 id2), b_id = snd (normalized_pair id1 id2),
      RecordRelation_company_id = c, RecordRelation_created_at = now\<rparr>"

definition canonical :: "db \<Rightarrow> bool" where
  "canonical d = (\<forall>r \<in> set (tbl_record_relation d). a_id r < b_id r)"

text \<open>
  The databases the program can produce: the empty schema that \<open>create_all\<close> makes,
  closed under every function of the two source files that commits, with any session and
  any arguments.
\<close>

inductive reachable :: "db \<Rightarrow> bool" where
  created: "reachable empty_db"
| init_db: "reachable d \<Longrightarrow> reachable (init_db pw_hash d)"
| seed: "reachable d \<Longrightarrow> reachable (seed now1 now2 now3 d)"
| create_company:
    "reachable d \<Longrightarrow>
     reachable (snd (create_company s now f_name f_street f_house_number f_postal_code f_city d))"
| create_user:
    "reachable d \<Longrightarrow>
     reachable (snd (create_user s email password pw_hash company_id is_superadmin d))"
| create_record:
    "reachable d \<Longrightarrow> reachable (snd (create_record s now f_name f_description f_group d))"
| create_relation:
    "reachable d \<Longrightarrow> reachable (snd (create_relation s now id1 id2 d))"
| delete_relation:
    "reachable d \<Longrightarrow> reachable (snd (delete_relation s rel_id d))"
| api_graph:
    "reachable d \<Longrightarrow> reachable (snd (api_graph s requested now_ts d))"

section \<open>A run of the program: two companies\<close>

text \<open>
  The super-admin of \<open>init_db\<close> creates company T and its user alice; alice creates the
  records Alpha and Beta and relates them. Then the super-admin creates company B and its
  user bob, who creates the record Gamma.
\<close>

definition admin_session :: session where
  "admin_session = \<lparr>session_user_id = Some 1, session_is_superadmin = Some True,
                     session_company_id = None\<rparr>"

definition alice_session :: session where
  "alice_session = \<lparr>session_user_id = Some 2, session_is_superadmin = Some False,
                     session_company_id = Some 1\<rparr>"

definition bob_session :: session where
  "bob_session = \<lparr>session_user_id = Some 3, session_is_superadmin = Some False,
                   session_company_id = Some 2\<rparr>"

definition scenario_db0 :: db where
  "scenario_db0 = init_db (py ''h0'') empty_db"

definition scenario_db1 :: db where
  "scenario_db1 =
     snd (create_company admin_session 100 (Some (py ''T'')) None None None None scenario_db0)"

definition scenario_db2 :: db where
  "scenario_db2 =
     snd (create_user admin_session (py ''alice@t'') (py ''pw'') (py ''h1'') (Some 1) False
            scenario_db1)"

definition scenario_db3 :: db where
  "scenario_db3 =
     snd (create_record alice_session 101 (Some (py ''Alpha'')) None None scenario_db2)"

definition scenario_db4 :: db where
  "scenario_db4 =
     snd (create_record alice_session 102 (Some (py ''Beta'')) None None scenario_db3)"

definition scenario_db5 :: db where
  "scenario_db5 = snd (create_relation alice_session 103 1 2 scenario_db4)"

definition scenario_db6 :: db where
  "scenario_db6 =
     snd (create_company admin_session 104 (Some (py ''B'')) None None None None scenario_db5)"

definition scenario_db7 :: db where
  "scenario_db7 =
     snd (create_user admin_session (py ''bob@b'') (py ''pw'') (py ''h2'') (Some 2) False
            scenario_db6)"

definition scenario_db8 :: db where
  "scenario_db8 =
     snd (create_record bob_session 105 (Some (py ''Gamma'')) None None scenario_db7)"

text \<open>The rows of that run.\<close>

definition company_T :: Company where
  "company_T = \<lparr>Company_id = 1, Company_name = py ''T'', Company_street = Some [],
                 Company_house_number = Some [], Company_postal_code = Some [],
                 Company_city = Some [], Company_created_at = 100\<rparr>"

definition company_B :: Company where
  "company_B = \<lparr>Company_id = 2, Company_name = py ''B'', Company_street = Some [],
                 Company_house_number = Some [], Company_postal_code = Some [],
                 Company_city = Some [], Company_created_at = 104\<rparr>"

definition user_admin :: User where
  "user_admin = \<lparr>User_id = 1, User_email = py ''admin@vip.local'',
                  User_password_hash = py ''h0'', User_is_superadmin = True,
                  User_company_id = None\<rparr>"

definition user_alice :: User where
  "user_alice = \<lparr>User_id = 2, User_email = py ''alice@t'', User_password_hash = py ''h1'',
                  User_is_superadmin = False, User_company_id = Some 1\<rparr>"

definition user_bob :: User where
  "user_bob = \<lparr>User_id = 3, User_email = py ''bob@b'', User_password_hash = py ''h2'',
                User_is_superadmin = False, User_company_id = Some 2\<rparr>"

definition record_alpha :: Record where
  "record_alpha = \<lparr>Record_id = 1, Record_company_id = 1, Record_name = py ''Alpha'',
                    Record_description = Some [], Record_group = Some [],
                    Record_created_at = 101\<rparr>"

definition record_beta :: Record where
  "record_beta = \<lparr>Record_id = 2, Record_company_id = 1, Record_name = py ''Beta'',
                   Record_description = Some [], Record_group = Some [],
                   Record_created_at = 102\<rparr>"

definition record_gamma :: Record where
  "record_gamma = \<lparr>Record_id = 3, Record_company_id = 2, Record_name = py ''Gamma'',
                    Record_description = Some [], Record_group = Some [],
                    Record_created_at = 105\<rparr>"

definition relation_alpha_beta :: RecordRelation where
  "relation_alpha_beta = \<lparr>RecordRelation_id = 1, a_id = 1, b_id = 2,
                           RecordRelation_company_id = 1, RecordRelation_created_at = 103\<rparr>"

section \<open>Primary keys\<close>

lemma fold_max_ge: "(x::int) \<le> fold max xs x"
  by (induction xs arbitrary: x) (auto intro: order_trans [OF max.cobounded2])

lemma fold_max_mem_le: "(y::int) \<in> set xs \<Longrightarrow> y \<le> fold max xs x"
proof (induction xs arbitrary: x)
  case Nil
  then show ?case by simp
next
  case (Cons z zs)
  show ?case
  proof (cases "y = z")
    case True
    have "z \<le> max z x" by simp
    also have "\<dots> \<le> fold max zs (max z x)" by (rule fold_max_ge)
    finally show ?thesis using True by simp
  next
    case False
    with Cons show ?thesis by simp
  qed
qed

lemma next_id_greater: "y \<in> set xs \<Longrightarrow> y < next_id xs"
proof (cases xs)
  case Nil
  assume "y \<in> set xs"
  with Nil show ?thesis by simp
next
  case (Cons z zs)
  assume "y \<in> set xs"
  with Cons have "y = z \<or> y \<in> set zs" by simp
  then have "y \<le> fold max zs z"
    using fold_max_ge [of z zs] fold_max_mem_le [of y zs z] by auto
  with Cons show ?thesis by simp
qed

lemma next_id_fresh: "next_id xs \<notin> set xs"
  using next_id_greater [of "next_id xs" xs] by auto

section \<open>The handlers for a caller of a company\<close>

lemma current_user_logged_in: "current_user d s = Some u \<Longrightarrow> truthy (session_user_id s)"
  by (simp add: current_user_def split: if_splits)

lemma find_None_iff_ball: "find P xs = None \<longleftrightarrow> (\<forall>x \<in> set xs. \<not> P x)"
  by (auto simp: find_None_iff)

lemma create_record_tenant:
  assumes "tenant_caller d s c"
  shows "create_record s now f_name f_description f_group d =
    (if strip (or_empty f_name) = [] then (Redirect Records (Some NameRequired), d)
     else (Redirect Records (Some RecordCreated),
           d\<lparr>tbl_record := tbl_record d @
              [\<lparr>Record_id = next_id (map Record_id (tbl_record d)),
                Record_company_id = c, Record_name = strip (or_empty f_name),
                Record_description = Some (strip (or_empty f_description)),
                Record_group = Some (strip (or_empty f_group)),
                Record_created_at = now\<rparr>]\<rparr>))"
proof -
  from assms obtain u where u: "current_user d s = Some u" "\<not> User_is_superadmin u"
    "User_company_id u = Some c" "c \<noteq> 0"
    by (auto simp: tenant_caller_def split: option.splits)
  have li: "truthy (session_user_id s)" using u(1) by (rule current_user_logged_in)
  have tc: "truthy (Some c)" using u(4) by (simp add: truthy_def)
  show ?thesis
    by (simp add: create_record_def login_required_def li u tc Let_def)
qed

lemma create_relation_tenant:
  assumes "tenant_caller d s c"
  shows "create_relation s now id1 id2 d =
    (if id1 = id2 then (Redirect Records (Some SelfRelation), d)
     else if nodesExist d c id1 id2 \<noteq> 2 then (Redirect Records (Some InvalidIds), d)
     else case normalized_pair id1 id2 of (a, b) \<Rightarrow>
       (case find (\<lambda>r. a_id r = a \<and> b_id r = b \<and> RecordRelation_company_id r = c)
               (tbl_record_relation d) of
          Some rel \<Rightarrow> (Redirect Records (Some RelationExists), d)
        | None \<Rightarrow>
            if \<exists>r \<in> set (tbl_record_relation d). a_id r = a \<and> b_id r = b
            then (Raised IntegrityError, d)
            else (Redirect Records (Some RelationCreated),
                  d\<lparr>tbl_record_relation := tbl_record_relation d @
                     [\<lparr>RecordRelation_id = next_id (map RecordRelation_id (tbl_record_relation d)),
                       a_id = a, b_id = b, RecordRelation_company_id = c,
                       RecordRelation_created_at = now\<rparr>]\<rparr>)))"
proof -
  from assms obtain u where u: "current_user d s = Some u" "\<not> User_is_superadmin u"
    "User_company_id u = Some c" "c \<noteq> 0"
    by (auto simp: tenant_caller_def split: option.splits)
  have li: "truthy (session_user_id s)" using u(1) by (rule current_user_logged_in)
  have tc: "truthy (Some c)" using u(4) by (simp add: truthy_def)
  show ?thesis
    by (simp add: create_relation_def login_required_def li u tc)
qed

lemma delete_relation_tenant:
  assumes "tenant_caller d s c"
  shows "delete_relation s rel_id d =
    (case find (\<lambda>r. RecordRelation_id r = rel_id \<and> RecordRelation_company_id r = c)
            (tbl_record_relation d) of
       Some rel \<Rightarrow>
         (Redirect Records (Some RelationDeleted),
          d\<lparr>tbl_record_relation :=
               filter (\<lambda>r. RecordRelation_id r \<noteq> rel_id) (tbl_record_relation d)\<rparr>)
     | None \<Rightarrow> (Redirect Records (Some RelationNotFound), d))"
proof -
  from assms obtain u where u: "current_user d s = Some u" "\<not> User_is_superadmin u"
    "User_company_id u = Some c" "c \<noteq> 0"
    by (auto simp: tenant_caller_def split: option.splits)
  have li: "truthy (session_user_id s)" using u(1) by (rule current_user_logged_in)
  have tc: "truthy (Some c)" using u(4) by (simp add: truthy_def)
  show ?thesis
    by (auto simp add: delete_relation_def login_required_def li u tc
        split: option.splits dest: find_Some_iff [THEN iffD1])
qed

lemma api_graph_user:
  assumes "current_user d s = Some u" and "\<not> User_is_superadmin u"
  shows "api_graph s requested now_ts d =
           (JsonOk \<lparr>nodes = map node_of
                       (filter (\<lambda>r. Some (Record_company_id r) = User_company_id u)
                          (tbl_record d)),
                    edges = map edge_of
                       (filter (\<lambda>r. Some (RecordRelation_company_id r) = User_company_id u)
                          (tbl_record_relation d)),
                    snapshot_company_id = User_company_id u, ts = now_ts\<rparr>, d)"
proof -
  have li: "truthy (session_user_id s)" using assms(1) by (rule current_user_logged_in)
  show ?thesis
    by (simp add: api_graph_def login_required_def li assms Let_def)
qed

lemma tenant_caller_cong:
  "tbl_user d' = tbl_user d \<Longrightarrow> tenant_caller d' s c = tenant_caller d s c"
  by (simp add: tenant_caller_def current_user_def)

section \<open>Counting the endpoints\<close>

lemma count_one_key:
  "distinct (map Record_id rs) \<Longrightarrow>
     length (filter (\<lambda>r. Record_company_id r = c \<and> Record_id r = x) rs) =
       (if \<exists>r \<in> set rs. Record_id r = x \<and> Record_company_id r = c then 1 else 0)"
proof (induction rs)
  case Nil
  then show ?case by simp
next
  case (Cons r rs)
  then have d: "distinct (map Record_id rs)" and n: "Record_id r \<notin> Record_id ` set rs"
    by simp_all
  show ?case
  proof (cases "Record_id r = x")
    case True
    with n have "\<forall>q \<in> set rs. Record_id q \<noteq> x" by (auto simp: image_iff)
    then have "filter (\<lambda>r. Record_company_id r = c \<and> Record_id r = x) rs = []"
      by (simp add: filter_empty_conv)
    with True \<open>\<forall>q \<in> set rs. Record_id q \<noteq> x\<close> show ?thesis by auto
  next
    case False
    with Cons.IH [OF d] show ?thesis by simp
  qed
qed

lemma count_two_keys:
  "id1 \<noteq> id2 \<Longrightarrow>
     length (filter (\<lambda>r. Record_company_id r = c \<and> Record_id r \<in> set [id1, id2]) rs) =
       length (filter (\<lambda>r. Record_company_id r = c \<and> Record_id r = id1) rs)
       + length (filter (\<lambda>r. Record_company_id r = c \<and> Record_id r = id2) rs)"
  by (induction rs) auto

lemma nodesExist_owned:
  assumes "distinct (map Record_id (tbl_record d))" and "id1 \<noteq> id2"
  shows "nodesExist d c id1 id2 = 2 \<longleftrightarrow> owned d c id1 \<and> owned d c id2"
  unfolding nodesExist_def owned_def count_two_keys [OF assms(2)]
    count_one_key [OF assms(1)]
  by simp

lemma nodesExist_cong:
  "tbl_record d' = tbl_record d \<Longrightarrow> nodesExist d' c id1 id2 = nodesExist d c id1 id2"
  by (simp add: nodesExist_def)

lemma nodesExist_commute: "nodesExist d c id2 id1 = nodesExist d c id1 id2"
  by (simp add: nodesExist_def insert_commute)

section \<open>Creating a relation\<close>

lemma normalized_pair_commute: "normalized_pair id2 id1 = normalized_pair id1 id2"
  by (simp add: normalized_pair_def)

lemma normalized_pair_less: "id1 \<noteq> id2 \<Longrightarrow> normalized_pair id1 id2 = (a, b) \<Longrightarrow> a < b"
  by (auto simp: normalized_pair_def split: if_splits)

lemma create_relation_commute:
  "create_relation s now id2 id1 d = create_relation s now id1 id2 d"
proof (cases "id1 = id2")
  case True
  then show ?thesis by simp
next
  case False
  have n: "nodesExist d c id2 id1 = nodesExist d c id1 id2" for c
    by (rule nodesExist_commute)
  have p: "normalized_pair id2 id1 = normalized_pair id1 id2"
    by (rule normalized_pair_commute)
  have e: "id2 \<noteq> id1" using False by simp
  show ?thesis
    unfolding create_relation_def login_required_def n p
    using False e by simp
qed

lemma create_relation_fresh:
  assumes "tenant_caller d s c" and "id1 \<noteq> id2" and "nodesExist d c id1 id2 = 2"
    and "\<forall>r \<in> set (tbl_record_relation d). pair_of r \<noteq> normalized_pair id1 id2"
  shows "create_relation s now id1 id2 d =
           (Redirect Records (Some RelationCreated),
            d\<lparr>tbl_record_relation := tbl_record_relation d @ [new_relation d c now id1 id2]\<rparr>)"
proof -
  obtain a b where ab: "normalized_pair id1 id2 = (a, b)" by (cases "normalized_pair id1 id2")
  from assms(4) ab have none: "\<forall>r \<in> set (tbl_record_relation d). \<not> (a_id r = a \<and> b_id r = b)"
    by (auto simp: pair_of_def)
  then have f: "find (\<lambda>r. a_id r = a \<and> b_id r = b \<and> RecordRelation_company_id r = c)
                  (tbl_record_relation d) = None"
    by (auto simp: find_None_iff_ball)
  show ?thesis
    using none assms(2,3)
    by (simp add: create_relation_tenant [OF assms(1)] ab f new_relation_def)
qed

lemma create_relation_present:
  assumes "tenant_caller d s c" and "id1 \<noteq> id2" and "nodesExist d c id1 id2 = 2"
    and "\<exists>r \<in> set (tbl_record_relation d).
           pair_of r = normalized_pair id1 id2 \<and> RecordRelation_company_id r = c"
  shows "create_relation s now id1 id2 d = (Redirect Records (Some RelationExists), d)"
proof -
  obtain a b where ab: "normalized_pair id1 id2 = (a, b)" by (cases "normalized_pair id1 id2")
  from assms(4) ab have "\<not> (\<forall>r \<in> set (tbl_record_relation d).
      \<not> (a_id r = a \<and> b_id r = b \<and> RecordRelation_company_id r = c))"
    by (auto simp: pair_of_def)
  then have "find (\<lambda>r. a_id r = a \<and> b_id r = b \<and> RecordRelation_company_id r = c)
                  (tbl_record_relation d) \<noteq> None"
    by (simp add: find_None_iff_ball)
  then obtain rel where "find (\<lambda>r. a_id r = a \<and> b_id r = b \<and> RecordRelation_company_id r = c)
                  (tbl_record_relation d) = Some rel" by blast
  then show ?thesis
    using assms(2,3) by (simp add: create_relation_tenant [OF assms(1)] ab)
qed

lemma create_relation_twice:
  assumes "tenant_caller d s t" and "x \<noteq> y" and "nodesExist d t x y = 2"
    and "\<forall>r \<in> set (tbl_record_relation d). pair_of r \<noteq> normalized_pair x y"
  shows "create_relation s now1 x y d =
           (Redirect Records (Some RelationCreated),
            d\<lparr>tbl_record_relation := tbl_record_relation d @ [new_relation d t now1 x y]\<rparr>)"
    and "create_relation s now2 x y
            (d\<lparr>tbl_record_relation := tbl_record_relation d @ [new_relation d t now1 x y]\<rparr>) =
           (Redirect Records (Some RelationExists),
            d\<lparr>tbl_record_relation := tbl_record_relation d @ [new_relation d t now1 x y]\<rparr>)"
    and "filter (\<lambda>r. pair_of r = normalized_pair x y)
           (tbl_record_relation d @ [new_relation d t now1 x y]) = [new_relation d t now1 x y]"
proof -
  let ?d1 = "d\<lparr>tbl_record_relation := tbl_record_relation d @ [new_relation d t now1 x y]\<rparr>"
  show "create_relation s now1 x y d = (Redirect Records (Some RelationCreated), ?d1)"
    by (rule create_relation_fresh [OF assms])
  have t1: "tenant_caller ?d1 s t" using assms(1) by (simp add: tenant_caller_cong [of ?d1 d])
  have n1: "nodesExist ?d1 t x y = 2" using assms(3) by (simp add: nodesExist_cong [of ?d1 d])
  have p: "pair_of (new_relation d t now1 x y) = normalized_pair x y"
    by (simp add: pair_of_def new_relation_def)
  have e1: "\<exists>r \<in> set (tbl_record_relation ?d1).
           pair_of r = normalized_pair x y \<and> RecordRelation_company_id r = t"
    using p by (simp add: new_relation_def)
  show "create_relation s now2 x y ?d1 = (Redirect Records (Some RelationExists), ?d1)"
    by (rule create_relation_present [OF t1 assms(2) n1 e1])
  have "filter (\<lambda>r. pair_of r = normalized_pair x y) (tbl_record_relation d) = []"
    using assms(4) by (simp add: filter_empty_conv)
  then show "filter (\<lambda>r. pair_of r = normalized_pair x y)
           (tbl_record_relation d @ [new_relation d t now1 x y]) = [new_relation d t now1 x y]"
    using p by simp
qed

text \<open>
  The lookup of \<open>create_relation\<close> is by pair and company, the constraint of the table
  by pair alone: a pair that only another company has stored makes the commit fail.
\<close>

lemma create_relation_foreign_pair:
  assumes "tenant_caller d s c" and "id1 \<noteq> id2" and "nodesExist d c id1 id2 = 2"
    and "\<forall>r \<in> set (tbl_record_relation d).
           pair_of r = normalized_pair id1 id2 \<longrightarrow> RecordRelation_company_id r \<noteq> c"
    and "\<exists>r \<in> set (tbl_record_relation d). pair_of r = normalized_pair id1 id2"
  shows "create_relation s now id1 id2 d = (Raised IntegrityError, d)"
proof -
  obtain a b where ab: "normalized_pair id1 id2 = (a, b)" by (cases "normalized_pair id1 id2")
  from assms(4) ab have "\<forall>r \<in> set (tbl_record_relation d).
      \<not> (a_id r = a \<and> b_id r = b \<and> RecordRelation_company_id r = c)"
    by (auto simp: pair_of_def)
  then have f: "find (\<lambda>r. a_id r = a \<and> b_id r = b \<and> RecordRelation_company_id r = c)
                  (tbl_record_relation d) = None"
    by (simp add: find_None_iff_ball)
  from assms(5) ab have e: "\<exists>r \<in> set (tbl_record_relation d). a_id r = a \<and> b_id r = b"
    by (auto simp: pair_of_def)
  show ?thesis
    using e assms(2,3) by (simp add: create_relation_tenant [OF assms(1)] ab f)
qed

section \<open>What each function does to the tables\<close>

lemma tables_init_db:
  "tbl_record_relation (init_db pw_hash d) = tbl_record_relation d"
  "tbl_record (init_db pw_hash d) = tbl_record d"
  by (simp_all add: init_db_def split: option.splits)

lemma relations_seed: "tbl_record_relation (seed now1 now2 now3 d) = tbl_record_relation d"
  by (simp add: seed_def Let_def)

lemma record_ids_seed: "map Record_id (tbl_record (seed now1 now2 now3 d)) = [1, 2]"
  by (simp add: seed_def Let_def)

lemma tables_create_company:
  "tbl_record_relation (snd (create_company s now f_name f_street f_house_number f_postal_code
      f_city d)) = tbl_record_relation d"
  "tbl_record (snd (create_company s now f_name f_street f_house_number f_postal_code
      f_city d)) = tbl_record d"
  by (simp_all add: create_company_def superadmin_required_def Let_def)

lemma tables_create_user:
  "tbl_record_relation (snd (create_user s email password pw_hash company_id is_superadmin d))
     = tbl_record_relation d"
  "tbl_record (snd (create_user s email password pw_hash company_id is_superadmin d))
     = tbl_record d"
  by (simp_all add: create_user_def superadmin_required_def)

lemma relations_create_record:
  "tbl_record_relation (snd (create_record s now f_name f_description f_group d))
     = tbl_record_relation d"
  by (simp add: create_record_def login_required_def Let_def split: option.splits)

lemma records_create_record:
  "tbl_record (snd (create_record s now f_name f_description f_group d)) = tbl_record d
   \<or> (\<exists>r. Record_id r = next_id (map Record_id (tbl_record d)) \<and>
        tbl_record (snd (create_record s now f_name f_description f_group d))
          = tbl_record d @ [r])"
  by (simp add: create_record_def login_required_def Let_def split: option.splits)

lemma records_create_relation:
  "tbl_record (snd (create_relation s now id1 id2 d)) = tbl_record d"
  by (simp add: create_relation_def login_required_def split: option.splits prod.splits)

lemma relations_create_relation:
  "tbl_record_relation (snd (create_relation s now id1 id2 d)) = tbl_record_relation d
   \<or> (id1 \<noteq> id2 \<and>
      (\<exists>r. pair_of r = normalized_pair id1 id2 \<and>
           RecordRelation_id r = next_id (map RecordRelation_id (tbl_record_relation d)) \<and>
           tbl_record_relation (snd (create_relation s now id1 id2 d))
             = tbl_record_relation d @ [r]))"
  by (simp add: create_relation_def login_required_def pair_of_def
      split: option.splits prod.splits)

lemma records_delete_relation: "tbl_record (snd (delete_relation s rel_id d)) = tbl_record d"
  by (simp add: delete_relation_def login_required_def split: option.splits)

lemma find_SomeD: "find P xs = Some x \<Longrightarrow> P x \<and> x \<in> set xs"
  by (auto simp: find_Some_iff)

lemma relations_delete_relation_cases:
  "tbl_record_relation (snd (delete_relation s rel_id d)) = tbl_record_relation d
   \<or> tbl_record_relation (snd (delete_relation s rel_id d))
       = filter (\<lambda>r. RecordRelation_id r \<noteq> rel_id) (tbl_record_relation d)"
  by (auto simp: delete_relation_def login_required_def split: option.splits
      dest!: find_SomeD)

lemma relations_delete_relation:
  "\<exists>P. tbl_record_relation (snd (delete_relation s rel_id d))
         = filter P (tbl_record_relation d)"
proof -
  from relations_delete_relation_cases [of s rel_id d] show ?thesis
  proof
    assume "tbl_record_relation (snd (delete_relation s rel_id d)) = tbl_record_relation d"
    then have "tbl_record_relation (snd (delete_relation s rel_id d))
         = filter (\<lambda>r. True) (tbl_record_relation d)" by simp
    then show ?thesis by blast
  next
    assume "tbl_record_relation (snd (delete_relation s rel_id d))
       = filter (\<lambda>r. RecordRelation_id r \<noteq> rel_id) (tbl_record_relation d)"
    then show ?thesis by blast
  qed
qed

lemma api_graph_reads: "snd (api_graph s requested now_ts d) = d"
  by (simp add: api_graph_def login_required_def Let_def split: option.splits)

lemma api_graph_edges:
  assumes "fst (api_graph s requested now_ts d) = JsonOk snap"
  shows "set (edges snap) \<subseteq> edge_of ` set (tbl_record_relation d)"
  using assms
  by (auto simp: api_graph_def login_required_def Let_def split: option.splits if_splits)

section \<open>Invariants of the reachable databases\<close>

lemma canonical_create_relation:
  assumes "canonical d"
  shows "canonical (snd (create_relation s now id1 id2 d))"
proof -
  from relations_create_relation [of s now id1 id2 d]
  show ?thesis
  proof (elim disjE conjE exE)
    assume "tbl_record_relation (snd (create_relation s now id1 id2 d)) = tbl_record_relation d"
    with assms show ?thesis by (simp add: canonical_def)
  next
    fix r
    assume ne: "id1 \<noteq> id2" and p: "pair_of r = normalized_pair id1 id2"
      and t: "tbl_record_relation (snd (create_relation s now id1 id2 d)) =
                tbl_record_relation d @ [r]"
    from p have "normalized_pair id1 id2 = (a_id r, b_id r)" by (simp add: pair_of_def)
    with ne have "a_id r < b_id r" by (rule normalized_pair_less)
    with assms t show ?thesis by (simp add: canonical_def)
  qed
qed

lemma canonical_delete_relation:
  "canonical d \<Longrightarrow> canonical (snd (delete_relation s rel_id d))"
  using relations_delete_relation [of s rel_id d] by (auto simp: canonical_def)

lemma reachable_canonical: "reachable d \<Longrightarrow> canonical d"
proof (induction rule: reachable.induct)
  case created
  show ?case by (simp add: canonical_def empty_db_def)
next
  case (create_relation d s now id1 id2)
  then show ?case by (simp add: canonical_create_relation)
next
  case (delete_relation d s rel_id)
  then show ?case by (simp add: canonical_delete_relation)
qed (simp_all add: canonical_def tables_init_db relations_seed tables_create_company
      tables_create_user relations_create_record api_graph_reads)

text \<open>The primary keys of the two tables the relations depend on stay unique.\<close>

lemma reachable_record_keys: "reachable d \<Longrightarrow> distinct (map Record_id (tbl_record d))"
proof (induction rule: reachable.induct)
  case created
  show ?case by (simp add: empty_db_def)
next
  case (seed d now1 now2 now3)
  show ?case by (simp add: record_ids_seed)
next
  case (create_record d s now f_name f_description f_group)
  from records_create_record [of s now f_name f_description f_group d]
  show ?case
  proof (elim disjE exE conjE)
    assume "tbl_record (snd (create_record s now f_name f_description f_group d)) = tbl_record d"
    with create_record.IH show ?thesis by simp
  next
    fix r
    assume "Record_id r = next_id (map Record_id (tbl_record d))"
      and "tbl_record (snd (create_record s now f_name f_description f_group d))
             = tbl_record d @ [r]"
    with create_record.IH next_id_fresh [of "map Record_id (tbl_record d)"]
    show ?thesis by simp
  qed
qed (simp_all add: tables_init_db tables_create_company tables_create_user
      records_create_relation records_delete_relation api_graph_reads)

lemma reachable_relation_keys:
  "reachable d \<Longrightarrow> distinct (map RecordRelation_id (tbl_record_relation d))"
proof (induction rule: reachable.induct)
  case created
  show ?case by (simp add: empty_db_def)
next
  case (create_relation d s now id1 id2)
  from relations_create_relation [of s now id1 id2 d]
  show ?case
  proof (elim disjE exE conjE)
    assume "tbl_record_relation (snd (create_relation s now id1 id2 d)) = tbl_record_relation d"
    with create_relation.IH show ?thesis by simp
  next
    fix r
    assume "RecordRelation_id r = next_id (map RecordRelation_id (tbl_record_relation d))"
      and "tbl_record_relation (snd (create_relation s now id1 id2 d))
             = tbl_record_relation d @ [r]"
    with create_relation.IH next_id_fresh [of "map RecordRelation_id (tbl_record_relation d)"]
    show ?thesis by simp
  qed
next
  case (delete_relation d s rel_id)
  from relations_delete_relation [of s rel_id d] obtain P
    where "tbl_record_relation (snd (delete_relation s rel_id d))
             = filter P (tbl_record_relation d)" by blast
  with delete_relation.IH show ?case by (simp add: distinct_map_filter)
qed (simp_all add: tables_init_db relations_seed tables_create_company tables_create_user
      relations_create_record api_graph_reads)

section \<open>The run, evaluated\<close>

lemma strip_literals:
  "strip [] = []"
  "strip (py ''T'') = py ''T''" "strip (py ''B'') = py ''B''"
  "strip (py ''Alpha'') = py ''Alpha''" "strip (py ''Beta'') = py ''Beta''"
  "strip (py ''Gamma'') = py ''Gamma''" "strip (py ''   '') = []"
  by (simp_all add: strip_def py_def isspace_def)

lemma py_literals:
  "py ''T'' \<noteq> []" "py ''B'' \<noteq> []" "py ''Alpha'' \<noteq> []" "py ''Beta'' \<noteq> []"
  "py ''Gamma'' \<noteq> []" "py ''alice@t'' \<noteq> []" "py ''bob@b'' \<noteq> []" "py ''pw'' \<noteq> []"
  "py ''admin@vip.local'' \<noteq> py ''alice@t''" "py ''admin@vip.local'' \<noteq> py ''bob@b''"
  "py ''alice@t'' \<noteq> py ''bob@b''"
  by (simp_all add: py_def)

lemma scenario_db0_eq: "scenario_db0 =
  \<lparr>tbl_company = [], tbl_user = [user_admin], tbl_record = [], tbl_record_relation = []\<rparr>"
  by (simp add: scenario_db0_def init_db_def empty_db_def INITIAL_ADMIN_EMAIL_def user_admin_def)

lemma scenario_db1_eq: "scenario_db1 =
  \<lparr>tbl_company = [company_T], tbl_user = [user_admin], tbl_record = [],
   tbl_record_relation = []\<rparr>"
  by (simp add: scenario_db1_def scenario_db0_eq create_company_def superadmin_required_def
      truthy_def admin_session_def or_empty_def strip_literals py_literals Let_def company_T_def)

lemma scenario_db2_eq: "scenario_db2 =
  \<lparr>tbl_company = [company_T], tbl_user = [user_admin, user_alice], tbl_record = [],
   tbl_record_relation = []\<rparr>"
  by (simp add: scenario_db2_def scenario_db1_eq create_user_def superadmin_required_def
      truthy_def admin_session_def py_literals user_admin_def user_alice_def)

lemma alice_db2: "tenant_caller scenario_db2 alice_session 1"
  by (simp add: tenant_caller_def current_user_def truthy_def alice_session_def scenario_db2_eq
      user_admin_def user_alice_def)

lemma scenario_db3_eq: "scenario_db3 =
  \<lparr>tbl_company = [company_T], tbl_user = [user_admin, user_alice],
   tbl_record = [record_alpha], tbl_record_relation = []\<rparr>"
  by (simp add: scenario_db3_def create_record_tenant [OF alice_db2] or_empty_def
      strip_literals py_literals record_alpha_def)
    (simp add: scenario_db2_eq)

lemma alice_db3: "tenant_caller scenario_db3 alice_session 1"
  by (simp add: tenant_caller_def current_user_def truthy_def alice_session_def scenario_db3_eq
      user_admin_def user_alice_def)

lemma scenario_db4_eq: "scenario_db4 =
  \<lparr>tbl_company = [company_T], tbl_user = [user_admin, user_alice],
   tbl_record = [record_alpha, record_beta], tbl_record_relation = []\<rparr>"
  by (simp add: scenario_db4_def create_record_tenant [OF alice_db3] or_empty_def
      strip_literals py_literals record_beta_def)
    (simp add: scenario_db3_eq record_alpha_def)

lemma alice_db4: "tenant_caller scenario_db4 alice_session 1"
  by (simp add: tenant_caller_def current_user_def truthy_def alice_session_def scenario_db4_eq
      user_admin_def user_alice_def)

lemma scenario_create_relation:
  "create_relation alice_session 103 1 2 scenario_db4 =
     (Redirect Records (Some RelationCreated),
      \<lparr>tbl_company = [company_T], tbl_user = [user_admin, user_alice],
       tbl_record = [record_alpha, record_beta],
       tbl_record_relation = [relation_alpha_beta]\<rparr>)"
  by (simp add: create_relation_tenant [OF alice_db4] nodesExist_def normalized_pair_def
      relation_alpha_beta_def)
    (simp add: scenario_db4_eq record_alpha_def record_beta_def)

lemma scenario_db5_eq: "scenario_db5 =
  \<lparr>tbl_company = [company_T], tbl_user = [user_admin, user_alice],
   tbl_record = [record_alpha, record_beta], tbl_record_relation = [relation_alpha_beta]\<rparr>"
  by (simp add: scenario_db5_def scenario_create_relation)

lemma scenario_db6_eq: "scenario_db6 =
  \<lparr>tbl_company = [company_T, company_B], tbl_user = [user_admin, user_alice],
   tbl_record = [record_alpha, record_beta], tbl_record_relation = [relation_alpha_beta]\<rparr>"
  by (simp add: scenario_db6_def scenario_db5_eq create_company_def superadmin_required_def
      truthy_def admin_session_def or_empty_def strip_literals py_literals Let_def company_B_def
      company_T_def)

lemma scenario_db7_eq: "scenario_db7 =
  \<lparr>tbl_company = [company_T, company_B], tbl_user = [user_admin, user_alice, user_bob],
   tbl_record = [record_alpha, record_beta], tbl_record_relation = [relation_alpha_beta]\<rparr>"
  by (simp add: scenario_db7_def scenario_db6_eq create_user_def superadmin_required_def
      truthy_def admin_session_def py_literals user_admin_def user_alice_def user_bob_def)

lemma bob_db7: "tenant_caller scenario_db7 bob_session 2"
  by (simp add: tenant_caller_def current_user_def truthy_def bob_session_def scenario_db7_eq
      user_admin_def user_alice_def user_bob_def)

lemma scenario_db8_eq: "scenario_db8 =
  \<lparr>tbl_company = [company_T, company_B], tbl_user = [user_admin, user_alice, user_bob],
   tbl_record = [record_alpha, record_beta, record_gamma],
   tbl_record_relation = [relation_alpha_beta]\<rparr>"
  by (simp add: scenario_db8_def create_record_tenant [OF bob_db7] or_empty_def
      strip_literals py_literals record_gamma_def)
    (simp add: scenario_db7_eq record_alpha_def record_beta_def)

lemma users_db8:
  "current_user scenario_db8 admin_session = Some user_admin"
  "current_user scenario_db8 alice_session = Some user_alice"
  "current_user scenario_db8 bob_session = Some user_bob"
  by (simp_all add: current_user_def truthy_def admin_session_def alice_session_def
      bob_session_def scenario_db8_eq user_admin_def user_alice_def user_bob_def)

lemma callers_db8:
  "tenant_caller scenario_db8 alice_session 1" "tenant_caller scenario_db8 bob_session 2"
  by (simp_all add: tenant_caller_def users_db8) (simp_all add: user_alice_def user_bob_def)

lemma alice_db5: "current_user scenario_db5 alice_session = Some user_alice"
  by (simp add: current_user_def truthy_def alice_session_def scenario_db5_eq user_admin_def
      user_alice_def)

lemma reachable_db5: "reachable scenario_db5"
  unfolding scenario_db5_def scenario_db4_def scenario_db3_def scenario_db2_def
    scenario_db1_def scenario_db0_def
  by (intro reachable.intros)

lemma reachable_db8: "reachable scenario_db8"
  unfolding scenario_db8_def scenario_db7_def scenario_db6_def
  by (intro reachable.intros reachable_db5)

lemma scenario_api_graph:
  "api_graph alice_session requested now_ts scenario_db5 =
     (JsonOk \<lparr>nodes = [\<lparr>node_id = 1, node_name = py ''Alpha'', node_description = [],
                         node_group = []\<rparr>,
                        \<lparr>node_id = 2, node_name = py ''Beta'', node_description = [],
                         node_group = []\<rparr>],
              edges = [\<lparr>edge_a = 1, edge_b = 2\<rparr>],
              snapshot_company_id = Some 1, ts = now_ts\<rparr>, scenario_db5)"
proof -
  have "\<not> User_is_superadmin user_alice" by (simp add: user_alice_def)
  from api_graph_user [OF alice_db5 this, of requested now_ts]
  show ?thesis
    by (simp add: scenario_db5_eq user_alice_def record_alpha_def record_beta_def
        relation_alpha_beta_def node_of_def edge_of_def or_empty_def)
qed

section \<open>The claims\<close>

text \<open>
  In the terms of the specification: \<open>createRelation\<close> is \<open>create_relation\<close>, with
  \<open>created\<close> the flash \<open>RelationCreated\<close>, \<open>alreadyExists\<close> the flash
  \<open>RelationExists\<close>, \<open>SelfRelationError\<close> the flash \<open>SelfRelation\<close> and
  \<open>InvalidEndpointsError\<close> the flash \<open>InvalidIds\<close>; \<open>deleteRelation\<close> is
  \<open>delete_relation\<close>, with \<open>deleted\<close> and \<open>notFound\<close> the flashes
  \<open>RelationDeleted\<close> and \<open>RelationNotFound\<close>; \<open>createNode\<close> is
  \<open>create_record\<close>, with \<open>ValidationError\<close> the flash \<open>NameRequired\<close>;
  \<open>getGraph\<close> is \<open>api_graph\<close>; \<open>normalize\<close> is \<open>normalized_pair\<close>. The
  tenant of a call is the company of the session's user.
\<close>

text \<open>
  C1. \<open>create_relation\<close> is idempotent. For a caller of company \<open>t\<close> and two
  different record ids \<open>x\<close>, \<open>y\<close> that \<open>t\<close> owns, in a database that does not yet
  relate the pair: the first call answers \<open>RelationCreated\<close>; a second call, with the
  ids in either order, answers \<open>RelationExists\<close> and changes nothing; afterwards exactly
  one row holds the pair, in the whole table and among the rows of \<open>t\<close>; and the first
  call does the same with the ids swapped.
\<close>

theorem create_relation_idempotent:
  assumes "tenant_caller d s t" and "x \<noteq> y"
    and "distinct (map Record_id (tbl_record d))" and "owned d t x" and "owned d t y"
    and "\<forall>r \<in> set (tbl_record_relation d). pair_of r \<noteq> normalized_pair x y"
  shows "fst (create_relation s now1 x y d) = Redirect Records (Some RelationCreated)
         \<and> create_relation s now2 x y (snd (create_relation s now1 x y d)) =
             (Redirect Records (Some RelationExists), snd (create_relation s now1 x y d))
         \<and> create_relation s now2 y x (snd (create_relation s now1 x y d)) =
             (Redirect Records (Some RelationExists), snd (create_relation s now1 x y d))
         \<and> length (filter (\<lambda>r. pair_of r = normalized_pair x y)
              (tbl_record_relation (snd (create_relation s now1 x y d)))) = 1
         \<and> length (filter (\<lambda>r. pair_of r = normalized_pair x y \<and> RecordRelation_company_id r = t)
              (tbl_record_relation (snd (create_relation s now1 x y d)))) = 1
         \<and> create_relation s now1 y x d = create_relation s now1 x y d"
proof -
  have n: "nodesExist d t x y = 2"
    using assms(4,5) by (simp add: nodesExist_owned [OF assms(3) assms(2)])
  note tw = create_relation_twice [OF assms(1,2) n assms(6)]
  have c: "RecordRelation_company_id (new_relation d t now1 x y) = t"
    by (simp add: new_relation_def)
  have "filter (\<lambda>r. pair_of r = normalized_pair x y \<and> RecordRelation_company_id r = t)
          (tbl_record_relation d @ [new_relation d t now1 x y]) =
        filter (\<lambda>r. RecordRelation_company_id r = t)
          (filter (\<lambda>r. pair_of r = normalized_pair x y)
             (tbl_record_relation d @ [new_relation d t now1 x y]))"
    by (simp add: conj_commute)
  also have "\<dots> = [new_relation d t now1 x y]"
    unfolding tw(3) using c by simp
  finally have f2:
    "length (filter (\<lambda>r. pair_of r = normalized_pair x y \<and> RecordRelation_company_id r = t)
          (tbl_record_relation d @ [new_relation d t now1 x y])) = 1" by simp
  show ?thesis
    using tw f2 by (simp add: create_relation_commute [of s _ y x])
qed

text \<open>
  C1 at work: alice, of company 1, relates her records 1 and 2, then asks again with the
  ids swapped.
\<close>

theorem create_relation_idempotent_witness:
  "tenant_caller scenario_db4 alice_session 1
   \<and> owned scenario_db4 1 1 \<and> owned scenario_db4 1 2
   \<and> tbl_record_relation scenario_db4 = []
   \<and> fst (create_relation alice_session 103 1 2 scenario_db4)
       = Redirect Records (Some RelationCreated)
   \<and> create_relation alice_session 110 1 2 scenario_db5
       = (Redirect Records (Some RelationExists), scenario_db5)
   \<and> create_relation alice_session 110 2 1 scenario_db5
       = (Redirect Records (Some RelationExists), scenario_db5)
   \<and> map pair_of (tbl_record_relation scenario_db5) = [(1, 2)]"
proof -
  have o: "owned scenario_db4 1 1" "owned scenario_db4 1 2"
    by (simp_all add: owned_def scenario_db4_eq record_alpha_def record_beta_def)
  have k: "distinct (map Record_id (tbl_record scenario_db4))"
    by (simp add: scenario_db4_eq record_alpha_def record_beta_def)
  have e: "tbl_record_relation scenario_db4 = []"
    by (simp add: scenario_db4_eq)
  have a: "\<forall>r \<in> set (tbl_record_relation scenario_db4). pair_of r \<noteq> normalized_pair 1 2"
    by (simp add: e)
  have n: "(1::int) \<noteq> 2" by simp
  have p: "map pair_of (tbl_record_relation scenario_db5) = [(1, 2)]"
    by (simp add: scenario_db5_eq pair_of_def relation_alpha_beta_def)
  from create_relation_idempotent [OF alice_db4 n k o a, of 103 110]
  show ?thesis
    using alice_db4 o e p by (simp add: scenario_db5_def [symmetric])
qed

text \<open>
  C2. The canonicalization invariant. In every database the program can reach, each
  stored relation has \<open>a_id < b_id\<close>; creating a relation, deleting one and creating a
  record keep it so; and every edge that \<open>api_graph\<close> serializes has \<open>a < b\<close>.
\<close>

theorem canonicalization_invariant:
  assumes "reachable d"
  shows "canonical d
         \<and> canonical (snd (create_relation s now id1 id2 d))
         \<and> canonical (snd (delete_relation s rel_id d))
         \<and> canonical (snd (create_record s now f_name f_description f_group d))
         \<and> (\<forall>snap. fst (api_graph s requested now_ts d) = JsonOk snap \<longrightarrow>
              (\<forall>e \<in> set (edges snap). edge_a e < edge_b e))"
proof -
  have c: "canonical d" using assms by (rule reachable_canonical)
  have g: "\<forall>snap. fst (api_graph s requested now_ts d) = JsonOk snap \<longrightarrow>
              (\<forall>e \<in> set (edges snap). edge_a e < edge_b e)"
  proof (intro allI impI ballI)
    fix snap e
    assume "fst (api_graph s requested now_ts d) = JsonOk snap" and "e \<in> set (edges snap)"
    then obtain r where "r \<in> set (tbl_record_relation d)" and "e = edge_of r"
      using api_graph_edges by blast
    with c show "edge_a e < edge_b e" by (simp add: canonical_def edge_of_def)
  qed
  have r: "canonical (snd (create_record s now f_name f_description f_group d))"
    using c by (simp add: canonical_def relations_create_record)
  from c g r show ?thesis
    by (simp add: canonical_create_relation canonical_delete_relation)
qed

text \<open>C2 at work: the database of the run, with its one relation, stored as (1, 2).\<close>

theorem canonicalization_invariant_witness:
  "reachable scenario_db5
   \<and> tbl_record_relation scenario_db5 = [relation_alpha_beta]
   \<and> a_id relation_alpha_beta < b_id relation_alpha_beta
   \<and> fst (api_graph alice_session None 200 scenario_db5) =
       JsonOk \<lparr>nodes = [\<lparr>node_id = 1, node_name = py ''Alpha'', node_description = [],
                         node_group = []\<rparr>,
                        \<lparr>node_id = 2, node_name = py ''Beta'', node_description = [],
                         node_group = []\<rparr>],
               edges = [\<lparr>edge_a = 1, edge_b = 2\<rparr>],
               snapshot_company_id = Some 1, ts = 200\<rparr>"
proof -
  from canonicalization_invariant [OF reachable_db5, of alice_session 110 2 1 1 None None None
      None 200]
  have c: "canonical scenario_db5" by simp
  have t: "tbl_record_relation scenario_db5 = [relation_alpha_beta]"
    by (simp add: scenario_db5_eq)
  have g: "fst (api_graph alice_session None 200 scenario_db5) =
       JsonOk \<lparr>nodes = [\<lparr>node_id = 1, node_name = py ''Alpha'', node_description = [],
                         node_group = []\<rparr>,
                        \<lparr>node_id = 2, node_name = py ''Beta'', node_description = [],
                         node_group = []\<rparr>],
               edges = [\<lparr>edge_a = 1, edge_b = 2\<rparr>],
               snapshot_company_id = Some 1, ts = 200\<rparr>"
    by (simp add: scenario_api_graph)
  from c t have "a_id relation_alpha_beta < b_id relation_alpha_beta"
    by (simp add: canonical_def)
  with reachable_db5 t g show ?thesis by simp
qed

text \<open>
  C3. \<open>normalized_pair\<close> is a total function of its two arguments alone. For two
  different ids it gives the same pair in either order of the arguments, and the first
  component is the smaller id, the second the larger.
\<close>

theorem normalized_pair_symmetric:
  "x \<noteq> y \<Longrightarrow>
     normalized_pair x y = normalized_pair y x
     \<and> fst (normalized_pair x y) = min x y
     \<and> snd (normalized_pair x y) = max x y
     \<and> fst (normalized_pair x y) < snd (normalized_pair x y)"
  by (simp add: normalized_pair_def min_def max_def)

text \<open>C3 at work: the ids 7 and 3.\<close>

theorem normalized_pair_symmetric_witness:
  "(7::int) \<noteq> 3 \<and> normalized_pair 7 3 = normalized_pair 3 7 \<and> normalized_pair 7 3 = (3, 7)"
  using normalized_pair_symmetric [of 7 3] by (simp add: normalized_pair_def)

text \<open>
  C4. Tenant isolation when a relation is created. For a caller of company \<open>c\<close> and
  two different ids: when the count of the records of \<open>c\<close> among the two ids is not 2,
  \<open>create_relation\<close> answers \<open>InvalidIds\<close> and the database is unchanged. With unique
  record keys the count is not 2 as soon as one of the ids is no record of \<open>c\<close>, be it
  absent or a record of another company.
\<close>

theorem create_relation_invalid_endpoints:
  assumes "tenant_caller d s c" and "id1 \<noteq> id2"
  shows "(nodesExist d c id1 id2 \<noteq> 2 \<longrightarrow>
            create_relation s now id1 id2 d = (Redirect Records (Some InvalidIds), d))
         \<and> (distinct (map Record_id (tbl_record d)) \<and> \<not> (owned d c id1 \<and> owned d c id2) \<longrightarrow>
            nodesExist d c id1 id2 \<noteq> 2)"
  using assms(2) by (simp add: create_relation_tenant [OF assms(1)] nodesExist_owned)

text \<open>
  C4 at work: alice, of company 1, tries to relate her record 1 to record 3, which is
  bob's, of company 2.
\<close>

theorem create_relation_invalid_endpoints_witness:
  "tenant_caller scenario_db8 alice_session 1
   \<and> owned scenario_db8 1 1 \<and> owned scenario_db8 2 3
   \<and> nodesExist scenario_db8 1 1 3 = 1
   \<and> create_relation alice_session 110 1 3 scenario_db8
       = (Redirect Records (Some InvalidIds), scenario_db8)"
proof -
  have n: "(1::int) \<noteq> 3" by simp
  have c: "nodesExist scenario_db8 1 1 3 = 1"
    by (simp add: nodesExist_def scenario_db8_eq record_alpha_def record_beta_def
        record_gamma_def)
  have o: "owned scenario_db8 1 1" "owned scenario_db8 2 3"
    by (simp_all add: owned_def scenario_db8_eq record_alpha_def record_beta_def
        record_gamma_def)
  from create_relation_invalid_endpoints [OF callers_db8(1) n, of 110]
  show ?thesis
    using callers_db8(1) o c by simp
qed

text \<open>
  C5. The graph of a caller who is no super-admin. Whatever company id the request
  names, \<open>api_graph\<close> answers with the records and relations of the caller's own company
  \<open>A\<close> and with \<open>A\<close> as the company id; the answer is the one for a request that names
  no company, and the database is unchanged.
\<close>

theorem api_graph_non_superadmin_scoped:
  assumes "current_user d s = Some u" and "\<not> User_is_superadmin u"
    and "User_company_id u = Some A"
  shows "api_graph s requested now_ts d =
           (JsonOk \<lparr>nodes = map node_of
                       (filter (\<lambda>r. Record_company_id r = A) (tbl_record d)),
                    edges = map edge_of
                       (filter (\<lambda>r. RecordRelation_company_id r = A) (tbl_record_relation d)),
                    snapshot_company_id = Some A, ts = now_ts\<rparr>, d)
         \<and> api_graph s requested now_ts d = api_graph s None now_ts d"
  by (simp add: api_graph_user [OF assms(1,2)] assms(3))

text \<open>C5 at work: alice, of company 1, asks for the graph of company 2.\<close>

theorem api_graph_non_superadmin_scoped_witness:
  "current_user scenario_db8 alice_session = Some user_alice
   \<and> \<not> User_is_superadmin user_alice \<and> User_company_id user_alice = Some 1
   \<and> api_graph alice_session (Some 2) 200 scenario_db8 =
       (JsonOk \<lparr>nodes = [\<lparr>node_id = 1, node_name = py ''Alpha'', node_description = [],
                          node_group = []\<rparr>,
                         \<lparr>node_id = 2, node_name = py ''Beta'', node_description = [],
                          node_group = []\<rparr>],
                edges = [\<lparr>edge_a = 1, edge_b = 2\<rparr>],
                snapshot_company_id = Some 1, ts = 200\<rparr>, scenario_db8)"
proof -
  have a: "\<not> User_is_superadmin user_alice" "User_company_id user_alice = Some 1"
    by (simp_all add: user_alice_def)
  from api_graph_non_superadmin_scoped [OF users_db8(2) a, of "Some 2" 200]
  show ?thesis
    using users_db8(2) a
    by (simp add: scenario_db8_eq record_alpha_def record_beta_def record_gamma_def
        relation_alpha_beta_def node_of_def edge_of_def or_empty_def)
qed

text \<open>
  C6. Deleting across companies. For a caller of company \<open>B\<close>, with unique relation
  keys: the id of a relation \<open>r\<close> of another company answers \<open>RelationNotFound\<close> and
  leaves the database as it is, \<open>r\<close> included, which is also the answer to an id that no
  relation has. \<open>delete_relation\<close> deletes exactly when a relation with that id belongs
  to \<open>B\<close>, and then it removes the rows with that id.
\<close>

theorem delete_relation_cross_tenant:
  assumes "tenant_caller d s B"
    and "distinct (map RecordRelation_id (tbl_record_relation d))"
    and "r \<in> set (tbl_record_relation d)"
    and "RecordRelation_company_id r \<noteq> B"
  shows "delete_relation s (RecordRelation_id r) d = (Redirect Records (Some RelationNotFound), d)
         \<and> (rel_id \<notin> set (map RecordRelation_id (tbl_record_relation d)) \<longrightarrow>
              delete_relation s rel_id d = (Redirect Records (Some RelationNotFound), d))
         \<and> ((\<exists>e \<in> set (tbl_record_relation d).
                RecordRelation_id e = rel_id \<and> RecordRelation_company_id e = B) \<longrightarrow>
              delete_relation s rel_id d =
                (Redirect Records (Some RelationDeleted),
                 d\<lparr>tbl_record_relation :=
                      filter (\<lambda>e. RecordRelation_id e \<noteq> rel_id) (tbl_record_relation d)\<rparr>))
         \<and> (\<not> (\<exists>e \<in> set (tbl_record_relation d).
                RecordRelation_id e = rel_id \<and> RecordRelation_company_id e = B) \<longrightarrow>
              delete_relation s rel_id d = (Redirect Records (Some RelationNotFound), d))"
proof -
  have uniq: "e = r" if "e \<in> set (tbl_record_relation d)"
    and "RecordRelation_id e = RecordRelation_id r" for e
    using that assms(2,3) by (auto simp: distinct_map inj_on_def)
  have "\<forall>e \<in> set (tbl_record_relation d).
          \<not> (RecordRelation_id e = RecordRelation_id r \<and> RecordRelation_company_id e = B)"
    using uniq assms(4) by blast
  then have 1: "delete_relation s (RecordRelation_id r) d =
                  (Redirect Records (Some RelationNotFound), d)"
    by (simp add: delete_relation_tenant [OF assms(1)] find_None_iff_ball [THEN iffD2])
  have 4: "\<not> (\<exists>e \<in> set (tbl_record_relation d).
                RecordRelation_id e = rel_id \<and> RecordRelation_company_id e = B) \<longrightarrow>
              delete_relation s rel_id d = (Redirect Records (Some RelationNotFound), d)"
    by (simp add: delete_relation_tenant [OF assms(1)] find_None_iff_ball [THEN iffD2])
  have 2: "rel_id \<notin> set (map RecordRelation_id (tbl_record_relation d)) \<longrightarrow>
              delete_relation s rel_id d = (Redirect Records (Some RelationNotFound), d)"
    using 4 by auto
  have 3: "(\<exists>e \<in> set (tbl_record_relation d).
                RecordRelation_id e = rel_id \<and> RecordRelation_company_id e = B) \<longrightarrow>
              delete_relation s rel_id d =
                (Redirect Records (Some RelationDeleted),
                 d\<lparr>tbl_record_relation :=
                      filter (\<lambda>e. RecordRelation_id e \<noteq> rel_id) (tbl_record_relation d)\<rparr>)"
    by (auto simp add: delete_relation_tenant [OF assms(1)] find_None_iff_ball
        split: option.splits)
  from 1 2 3 4 show ?thesis by blast
qed

text \<open>
  C6 at work: bob, of company 2, names relation 1, which is alice's, and then relation 7,
  which does not exist.
\<close>

theorem delete_relation_cross_tenant_witness:
  "tenant_caller scenario_db8 bob_session 2
   \<and> tbl_record_relation scenario_db8 = [relation_alpha_beta]
   \<and> RecordRelation_id relation_alpha_beta = 1
   \<and> RecordRelation_company_id relation_alpha_beta = 1
   \<and> delete_relation bob_session 1 scenario_db8
       = (Redirect Records (Some RelationNotFound), scenario_db8)
   \<and> delete_relation bob_session 7 scenario_db8
       = (Redirect Records (Some RelationNotFound), scenario_db8)"
proof -
  have t: "tbl_record_relation scenario_db8 = [relation_alpha_beta]"
    by (simp add: scenario_db8_eq)
  have k: "distinct (map RecordRelation_id (tbl_record_relation scenario_db8))"
    by (simp add: t)
  have m: "relation_alpha_beta \<in> set (tbl_record_relation scenario_db8)"
    by (simp add: t)
  have c: "RecordRelation_company_id relation_alpha_beta \<noteq> 2"
    by (simp add: relation_alpha_beta_def)
  have i: "RecordRelation_id relation_alpha_beta = 1"
    "RecordRelation_company_id relation_alpha_beta = 1"
    by (simp_all add: relation_alpha_beta_def)
  from delete_relation_cross_tenant [OF callers_db8(2) k m c, of 7]
  show ?thesis
    using callers_db8(2) t i by simp
qed

text \<open>
  C7. A relation of a record to itself. \<open>create_relation\<close> with twice the same id never
  changes the database, and for every logged-in session it answers \<open>SelfRelation\<close>,
  whatever the database holds: the test comes before the user and the records are read.
\<close>

theorem create_relation_self_rejected:
  "snd (create_relation s now x x d) = d
   \<and> (truthy (session_user_id s) \<longrightarrow>
        create_relation s now x x d = (Redirect Records (Some SelfRelation), d))"
  by (simp add: create_relation_def login_required_def)

text \<open>C7 at work: alice names record 5 twice, in a database that has no record.\<close>

theorem create_relation_self_rejected_witness:
  "truthy (session_user_id alice_session)
   \<and> create_relation alice_session 110 5 5 empty_db
       = (Redirect Records (Some SelfRelation), empty_db)"
proof -
  have t: "truthy (session_user_id alice_session)"
    by (simp add: truthy_def alice_session_def)
  from create_relation_self_rejected [of alice_session 110 5 empty_db]
  show ?thesis using t by simp
qed

text \<open>
  C8, as the specification states it, fails: after company T, the records Alpha (id 1)
  and Beta (id 2) and the relation of the two, \<open>api_graph\<close> does not list Beta before
  Alpha. It lists the records as the table holds them, Alpha first.
\<close>

theorem scenario_graph_not_newest_first:
  "fst (api_graph alice_session (Some 1) 200 scenario_db5) \<noteq>
     JsonOk \<lparr>nodes = [\<lparr>node_id = 2, node_name = py ''Beta'', node_description = [],
                       node_group = []\<rparr>,
                      \<lparr>node_id = 1, node_name = py ''Alpha'', node_description = [],
                       node_group = []\<rparr>],
             edges = [\<lparr>edge_a = 1, edge_b = 2\<rparr>],
             snapshot_company_id = Some 1, ts = 200\<rparr>
   \<and> fst (api_graph alice_session (Some 1) 200 scenario_db5) =
     JsonOk \<lparr>nodes = [\<lparr>node_id = 1, node_name = py ''Alpha'', node_description = [],
                       node_group = []\<rparr>,
                      \<lparr>node_id = 2, node_name = py ''Beta'', node_description = [],
                       node_group = []\<rparr>],
             edges = [\<lparr>edge_a = 1, edge_b = 2\<rparr>],
             snapshot_company_id = Some 1, ts = 200\<rparr>"
  by (simp add: scenario_api_graph)

text \<open>
  C8, amended. After company T (id 1) is created, its user creates the records Alpha
  and Beta, which get the ids 1 and 2, and \<open>create_relation\<close> of 1 and 2 answers
  \<open>RelationCreated\<close>. Then \<open>api_graph\<close> for that user answers with the nodes in the
  order of the table, id 1 before id 2, the one edge in canonical order, and company 1.
\<close>

theorem scenario_graph:
  "map Company_id (tbl_company scenario_db5) = [1]
   \<and> map Record_id (tbl_record scenario_db5) = [1, 2]
   \<and> map Record_name (tbl_record scenario_db5) = [py ''Alpha'', py ''Beta'']
   \<and> fst (create_relation alice_session 103 1 2 scenario_db4)
       = Redirect Records (Some RelationCreated)
   \<and> api_graph alice_session requested now_ts scenario_db5 =
       (JsonOk \<lparr>nodes = [\<lparr>node_id = 1, node_name = py ''Alpha'', node_description = [],
                          node_group = []\<rparr>,
                         \<lparr>node_id = 2, node_name = py ''Beta'', node_description = [],
                          node_group = []\<rparr>],
                edges = [\<lparr>edge_a = 1, edge_b = 2\<rparr>],
                snapshot_company_id = Some 1, ts = now_ts\<rparr>, scenario_db5)"
  by (simp add: scenario_api_graph scenario_create_relation)
    (simp add: scenario_db5_eq company_T_def record_alpha_def record_beta_def)

text \<open>C8, amended, at work: the request names company 1 at the time 200.\<close>

theorem scenario_graph_witness:
  "map node_id (nodes
     \<lparr>nodes = [\<lparr>node_id = 1, node_name = py ''Alpha'', node_description = [],
                node_group = []\<rparr>,
               \<lparr>node_id = 2, node_name = py ''Beta'', node_description = [],
                node_group = []\<rparr>],
      edges = [\<lparr>edge_a = 1, edge_b = 2\<rparr>],
      snapshot_company_id = Some 1, ts = 200\<rparr>) = [1, 2]
   \<and> fst (api_graph alice_session (Some 1) 200 scenario_db5) =
       JsonOk \<lparr>nodes = [\<lparr>node_id = 1, node_name = py ''Alpha'', node_description = [],
                         node_group = []\<rparr>,
                        \<lparr>node_id = 2, node_name = py ''Beta'', node_description = [],
                         node_group = []\<rparr>],
               edges = [\<lparr>edge_a = 1, edge_b = 2\<rparr>],
               snapshot_company_id = Some 1, ts = 200\<rparr>"
  using scenario_graph [of "Some 1" 200] by simp

text \<open>
  C9. \<open>create_record\<close> for a logged-in session answers \<open>NameRequired\<close> exactly when
  the name is empty once the whitespace around it is stripped, and then it stores
  nothing. With a name that is not, and for a caller of company \<open>c\<close>, it appends one
  record of \<open>c\<close> with a key the table did not have, the stripped fields and the clock
  reading of the call.
\<close>

theorem create_record_validation:
  assumes "truthy (session_user_id s)"
  shows "(fst (create_record s now f_name f_description f_group d)
            = Redirect Records (Some NameRequired) \<longleftrightarrow> strip (or_empty f_name) = [])
         \<and> (strip (or_empty f_name) = [] \<longrightarrow>
              snd (create_record s now f_name f_description f_group d) = d)
         \<and> (strip (or_empty f_name) \<noteq> [] \<and> tenant_caller d s c \<longrightarrow>
              create_record s now f_name f_description f_group d =
                (Redirect Records (Some RecordCreated),
                 d\<lparr>tbl_record := tbl_record d @
                    [\<lparr>Record_id = next_id (map Record_id (tbl_record d)),
                      Record_company_id = c, Record_name = strip (or_empty f_name),
                      Record_description = Some (strip (or_empty f_description)),
                      Record_group = Some (strip (or_empty f_group)),
                      Record_created_at = now\<rparr>]\<rparr>)
              \<and> next_id (map Record_id (tbl_record d)) \<notin> set (map Record_id (tbl_record d)))"
proof -
  have 1: "fst (create_record s now f_name f_description f_group d)
            = Redirect Records (Some NameRequired) \<longleftrightarrow> strip (or_empty f_name) = []"
    using assms
    by (simp add: create_record_def login_required_def Let_def split: option.splits)
  have 2: "strip (or_empty f_name) = [] \<longrightarrow>
              snd (create_record s now f_name f_description f_group d) = d"
    by (simp add: create_record_def login_required_def Let_def)
  have 3: "strip (or_empty f_name) \<noteq> [] \<and> tenant_caller d s c \<longrightarrow>
              create_record s now f_name f_description f_group d =
                (Redirect Records (Some RecordCreated),
                 d\<lparr>tbl_record := tbl_record d @
                    [\<lparr>Record_id = next_id (map Record_id (tbl_record d)),
                      Record_company_id = c, Record_name = strip (or_empty f_name),
                      Record_description = Some (strip (or_empty f_description)),
                      Record_group = Some (strip (or_empty f_group)),
                      Record_created_at = now\<rparr>]\<rparr>)
              \<and> next_id (map Record_id (tbl_record d)) \<notin> set (map Record_id (tbl_record d))"
  proof (intro impI, elim conjE)
    assume n: "strip (or_empty f_name) \<noteq> []" and t: "tenant_caller d s c"
    show "create_record s now f_name f_description f_group d =
                (Redirect Records (Some RecordCreated),
                 d\<lparr>tbl_record := tbl_record d @
                    [\<lparr>Record_id = next_id (map Record_id (tbl_record d)),
                      Record_company_id = c, Record_name = strip (or_empty f_name),
                      Record_description = Some (strip (or_empty f_description)),
                      Record_group = Some (strip (or_empty f_group)),
                      Record_created_at = now\<rparr>]\<rparr>)
              \<and> next_id (map Record_id (tbl_record d)) \<notin> set (map Record_id (tbl_record d))"
      using n next_id_fresh [of "map Record_id (tbl_record d)"]
      by (simp add: create_record_tenant [OF t])
  qed
  from 1 2 3 show ?thesis by blast
qed

text \<open>
  C9 at work: alice sends a name of three spaces, then the name Alpha, to the database
  that has no record yet.
\<close>

theorem create_record_validation_witness:
  "truthy (session_user_id alice_session)
   \<and> tenant_caller scenario_db2 alice_session 1
   \<and> fst (create_record alice_session 101 (Some (py ''   '')) None None scenario_db2)
       = Redirect Records (Some NameRequired)
   \<and> snd (create_record alice_session 101 (Some (py ''   '')) None None scenario_db2)
       = scenario_db2
   \<and> create_record alice_session 101 (Some (py ''Alpha'')) None None scenario_db2
       = (Redirect Records (Some RecordCreated), scenario_db3)
   \<and> tbl_record scenario_db2 = [] \<and> tbl_record scenario_db3 = [record_alpha]"
proof -
  have t: "truthy (session_user_id alice_session)"
    by (simp add: truthy_def alice_session_def)
  have e: "tbl_record scenario_db2 = []" "tbl_record scenario_db3 = [record_alpha]"
    by (simp_all add: scenario_db2_eq scenario_db3_eq)
  from create_record_validation [OF t, of 101 "Some (py ''   '')" None None scenario_db2 1]
    create_record_validation [OF t, of 101 "Some (py ''Alpha'')" None None scenario_db2 1]
  show ?thesis
    using t alice_db2 e
    by (simp add: or_empty_def strip_literals py_literals scenario_db3_def)
qed

text \<open>
  C10. A caller who is a super-admin, or whose user has no company id, changes nothing:
  \<open>create_record\<close>, \<open>create_relation\<close> and \<open>delete_relation\<close> answer with a
  rejection (\<open>NotCompanyUser\<close>, or the complaint about an empty name or a self-relation
  that comes first) and leave the database as it is. A super-admin who names a company
  reads its graph.
\<close>

theorem mutations_rejected_without_tenant:
  assumes "current_user d s = Some u"
    and "User_is_superadmin u \<or> \<not> truthy (User_company_id u)"
  shows "create_record s now f_name f_description f_group d =
           (Redirect Records
              (Some (if strip (or_empty f_name) = [] then NameRequired else NotCompanyUser)), d)
         \<and> create_relation s now id1 id2 d =
           (Redirect Records (Some (if id1 = id2 then SelfRelation else NotCompanyUser)), d)
         \<and> delete_relation s rel_id d = (Redirect Records (Some NotCompanyUser), d)
         \<and> (User_is_superadmin u \<and> truthy requested \<longrightarrow>
              api_graph s requested now_ts d =
                (JsonOk \<lparr>nodes = map node_of
                            (filter (\<lambda>r. Some (Record_company_id r) = requested) (tbl_record d)),
                         edges = map edge_of
                            (filter (\<lambda>r. Some (RecordRelation_company_id r) = requested)
                               (tbl_record_relation d)),
                         snapshot_company_id = requested, ts = now_ts\<rparr>, d))"
proof -
  have li: "truthy (session_user_id s)" using assms(1) by (rule current_user_logged_in)
  have 1: "create_record s now f_name f_description f_group d =
           (Redirect Records
              (Some (if strip (or_empty f_name) = [] then NameRequired else NotCompanyUser)), d)"
    using assms(2) by (simp add: create_record_def login_required_def li assms(1) Let_def)
  have 2: "create_relation s now id1 id2 d =
           (Redirect Records (Some (if id1 = id2 then SelfRelation else NotCompanyUser)), d)"
    using assms(2) by (simp add: create_relation_def login_required_def li assms(1))
  have 3: "delete_relation s rel_id d = (Redirect Records (Some NotCompanyUser), d)"
    using assms(2) by (simp add: delete_relation_def login_required_def li assms(1))
  have 4: "User_is_superadmin u \<and> truthy requested \<longrightarrow>
              api_graph s requested now_ts d =
                (JsonOk \<lparr>nodes = map node_of
                            (filter (\<lambda>r. Some (Record_company_id r) = requested) (tbl_record d)),
                         edges = map edge_of
                            (filter (\<lambda>r. Some (RecordRelation_company_id r) = requested)
                               (tbl_record_relation d)),
                         snapshot_company_id = requested, ts = now_ts\<rparr>, d)"
    by (simp add: api_graph_def login_required_def li assms(1) Let_def)
  from 1 2 3 4 show ?thesis by blast
qed

text \<open>
  C10 at work: the super-admin tries to create a record, to relate records 1 and 2 and
  to delete relation 1 in the database of the two companies.
\<close>

theorem mutations_rejected_without_tenant_witness:
  "current_user scenario_db8 admin_session = Some user_admin
   \<and> User_is_superadmin user_admin
   \<and> create_record admin_session 110 (Some (py ''Alpha'')) None None scenario_db8
       = (Redirect Records (Some NotCompanyUser), scenario_db8)
   \<and> create_relation admin_session 110 1 2 scenario_db8
       = (Redirect Records (Some NotCompanyUser), scenario_db8)
   \<and> delete_relation admin_session 1 scenario_db8
       = (Redirect Records (Some NotCompanyUser), scenario_db8)"
proof -
  have a: "User_is_superadmin user_admin" by (simp add: user_admin_def)
  then have h: "User_is_superadmin user_admin \<or> \<not> truthy (User_company_id user_admin)"
    by simp
  from mutations_rejected_without_tenant [OF users_db8(1) h,
      of 110 "Some (py ''Alpha'')" None None 1 2 1 None 200]
  show ?thesis
    using users_db8(1) a by (simp add: or_empty_def strip_literals py_literals)
qed

end
